theory Spec2Isabelle
  imports Main
begin

section \<open>JavaScript values\<close>

text \<open>
  JavaScript strings are modelled as \<open>string\<close>, one \<open>char\<close> per code unit, so
  \<open>length\<close> is the source's \<open>.length\<close>. A value that may be \<open>null\<close> or \<open>undefined\<close>
  is an \<open>option\<close>, \<open>None\<close> standing for both. A string is truthy when it is not empty.
  The values of a parameter object are strings or numbers.
\<close>

datatype jsval = JStr string | JNum int

datatype jserror = RangeError | TypeError

text \<open>
  \<open>String.prototype.trim\<close> removes white space and line terminators from both ends.
  Among the code units a \<open>char\<close> can hold these are TAB, LF, VT, FF, CR, SPACE and the
  no-break space (160).
\<close>

definition isWhiteSpace :: "char \<Rightarrow> bool" where
  "isWhiteSpace c = (of_char c \<in> {9, 10, 11, 12, 13, 32, 160 :: nat})"

definition trim :: "string \<Rightarrow> string" where
  "trim s = rev (dropWhile isWhiteSpace (rev (dropWhile isWhiteSpace s)))"

section \<open>News card: text truncation (src/components/NewsCard.js)\<close>

text \<open>
  \<open>truncateText\<close> is a local helper of the card; the card calls it with the length
  bounds 100 and 150, and the bound is modelled as a natural number, for which
  \<open>substring(0, maxLength)\<close> is \<open>take maxLength\<close>.
\<close>

definition truncateText :: "string option \<Rightarrow> nat \<Rightarrow> string" where
  "truncateText text maxLength =
     (case text of
        None \<Rightarrow> ''''
      | Some t \<Rightarrow>
          if t = '''' then ''''
          else if length t \<le> maxLength then t
          else take maxLength t @ ''...'')"

section \<open>Filter state (src/App.js)\<close>

text \<open>
  The filter object of \<open>App\<close> starts as \<open>{language: 'en', dateRange: 'week', source:
  'all'}\<close> and is only ever replaced by \<open>handleFilterChange\<close>, which copies every
  property and sets one. So the three properties are always there; \<open>others\<close> holds any
  further property a call with another \<open>filterType\<close> would add. \<open>field\<close> reads a
  property by name, as \<open>filters[name]\<close> does.
\<close>

record FilterState =
  language :: string
  dateRange :: string
  source :: string
  others :: "string \<rightharpoonup> string"

definition initialFilters :: FilterState where
  "initialFilters =
     \<lparr>language = ''en'', dateRange = ''week'', source = ''all'', others = Map.empty\<rparr>"

definition field :: "FilterState \<Rightarrow> string \<Rightarrow> string option" where
  "field filters name =
     (if name = ''language'' then Some (language filters)
      else if name = ''dateRange'' then Some (dateRange filters)
      else if name = ''source'' then Some (source filters)
      else others filters name)"

text \<open>\<open>({...prevFilters, [filterType]: value})\<close>\<close>

definition handleFilterChange :: "string \<Rightarrow> string \<Rightarrow> FilterState \<Rightarrow> FilterState" where
  "handleFilterChange filterType value prevFilters =
     (if filterType = ''language'' then prevFilters\<lparr>language := value\<rparr>
      else if filterType = ''dateRange'' then prevFilters\<lparr>dateRange := value\<rparr>
      else if filterType = ''source'' then prevFilters\<lparr>source := value\<rparr>
      else prevFilters\<lparr>others := (others prevFilters)(filterType \<mapsto> value)\<rparr>)"

section \<open>Dates (the runtime's \<open>Date\<close>, as used by \<open>getDateFrom\<close>)\<close>

text \<open>
  A time value is a count of milliseconds since 1970-01-01T00:00:00Z. The definitions
  follow the Date abstract operations of ECMA-262: \<open>Day\<close>, \<open>TimeWithinDay\<close>,
  \<open>DayFromYear\<close>, \<open>YearFromTime\<close>, \<open>InLeapYear\<close>, \<open>MonthFromTime\<close>, \<open>DateFromTime\<close>
  and \<open>TimeClip\<close>; the year, month and date are taken from the day number, which is all
  they depend on.
\<close>

definition msPerDay :: int where
  "msPerDay = 24 * 60 * 60 * 1000"

definition Day :: "int \<Rightarrow> int" where
  "Day t = t div msPerDay"

definition TimeWithinDay :: "int \<Rightarrow> int" where
  "TimeWithinDay t = t mod msPerDay"

definition DayFromYear :: "int \<Rightarrow> int" where
  "DayFromYear y =
     365 * (y - 1970) + (y - 1969) div 4 - (y - 1901) div 100 + (y - 1601) div 400"

text \<open>
  The year of a day number is the largest \<open>y\<close> with \<open>DayFromYear y \<le> d\<close>. It is within
  one of the estimate that takes every year as 146097 / 400 days.
\<close>

definition YearFromDay :: "int \<Rightarrow> int" where
  "YearFromDay d =
     (let c = 1970 + (400 * d) div 146097
      in if DayFromYear (c + 1) \<le> d then c + 1
         else if DayFromYear c \<le> d then c
         else c - 1)"

definition InLeapYear :: "int \<Rightarrow> int" where
  "InLeapYear y = (if y mod 4 = 0 \<and> (y mod 100 \<noteq> 0 \<or> y mod 400 = 0) then 1 else 0)"

definition DayWithinYear :: "int \<Rightarrow> int" where
  "DayWithinYear d = d - DayFromYear (YearFromDay d)"

definition MonthFromDay :: "int \<Rightarrow> int" where
  "MonthFromDay d =
     (let w = DayWithinYear d; l = InLeapYear (YearFromDay d)
      in if w < 31 then 0
         else if w < 59 + l then 1
         else if w < 90 + l then 2
         else if w < 120 + l then 3
         else if w < 151 + l then 4
         else if w < 181 + l then 5
         else if w < 212 + l then 6
         else if w < 243 + l then 7
         else if w < 273 + l then 8
         else if w < 304 + l then 9
         else if w < 334 + l then 10
         else 11)"

definition DateFromDay :: "int \<Rightarrow> int" where
  "DateFromDay d =
     (let w = DayWithinYear d; l = InLeapYear (YearFromDay d); m = MonthFromDay d
      in if m = 0 then w + 1
         else if m = 1 then w - 30
         else if m = 2 then w - 58 - l
         else if m = 3 then w - 89 - l
         else if m = 4 then w - 119 - l
         else if m = 5 then w - 150 - l
         else if m = 6 then w - 180 - l
         else if m = 7 then w - 211 - l
         else if m = 8 then w - 242 - l
         else if m = 9 then w - 272 - l
         else if m = 10 then w - 303 - l
         else w - 333 - l)"

text \<open>\<open>new Date(v)\<close> keeps \<open>TimeClip v\<close>: \<open>None\<close> is the invalid date (NaN).\<close>

definition TimeClip :: "int \<Rightarrow> int option" where
  "TimeClip v = (if \<bar>v\<bar> > 8640000000000000 then None else Some v)"

text \<open>Decimal digits, zero-padded to a fixed width.\<close>

definition digit :: "int \<Rightarrow> char" where
  "digit n = ''0123456789'' ! nat (n mod 10)"

definition pad2 :: "int \<Rightarrow> string" where
  "pad2 n = [digit (n div 10), digit n]"

definition pad3 :: "int \<Rightarrow> string" where
  "pad3 n = [digit (n div 100), digit (n div 10), digit n]"

definition pad4 :: "int \<Rightarrow> string" where
  "pad4 n = [digit (n div 1000), digit (n div 100), digit (n div 10), digit n]"

definition pad6 :: "int \<Rightarrow> string" where
  "pad6 n = [digit (n div 100000), digit (n div 10000), digit (n div 1000),
             digit (n div 100), digit (n div 10), digit n]"

text \<open>
  \<open>Date.prototype.toISOString\<close> writes \<open>YYYY-MM-DDTHH:mm:ss.sssZ\<close> in UTC; a year
  outside 0..9999 is written with a sign and six digits; an invalid date raises
  \<open>RangeError\<close>.
\<close>

definition isoYear :: "int \<Rightarrow> string" where
  "isoYear y =
     (if 0 \<le> y \<and> y \<le> 9999 then pad4 y
      else (if y < 0 then CHR ''-'' else CHR ''+'') # pad6 \<bar>y\<bar>)"

definition isoDate :: "int \<Rightarrow> string" where
  "isoDate d =
     isoYear (YearFromDay d) @ ''-'' @ pad2 (MonthFromDay d + 1) @ ''-'' @ pad2 (DateFromDay d)"

definition isoTime :: "int \<Rightarrow> string" where
  "isoTime ms =
     pad2 (ms div 3600000) @ '':'' @ pad2 (ms div 60000 mod 60) @ '':'' @
     pad2 (ms div 1000 mod 60) @ ''.'' @ pad3 (ms mod 1000)"

definition toISOString :: "int option \<Rightarrow> jserror + string" where
  "toISOString tv =
     (case tv of
        None \<Rightarrow> Inl RangeError
      | Some t \<Rightarrow> Inr (isoDate (Day t) @ ''T'' @ isoTime (TimeWithinDay t) @ ''Z''))"

text \<open>\<open>s.split(c)[0]\<close>: the part of \<open>s\<close> before the first \<open>c\<close>, all of \<open>s\<close> if there is none.\<close>

definition splitFirst :: "char \<Rightarrow> string \<Rightarrow> string" where
  "splitFirst c s = takeWhile (\<lambda>x. x \<noteq> c) s"

section \<open>Client: date range and request parameters (src/App.js)\<close>

text \<open>
  The \<open>switch\<close> of \<open>getDateFrom\<close> that sets \<open>daysAgo\<close>; \<open>rng\<close> is the source's
  parameter \<open>range\<close>.
\<close>

definition daysAgo :: "string \<Rightarrow> int" where
  "daysAgo rng =
     (if rng = ''today'' then 1
      else if rng = ''week'' then 7
      else if rng = ''month'' then 30
      else 7)"

text \<open>\<open>now\<close> is the time value of \<open>new Date()\<close>, the reading of the clock.\<close>

definition getDateFrom :: "int \<Rightarrow> string \<Rightarrow> jserror + string" where
  "getDateFrom now rng =
     (let pastDate = TimeClip (now - daysAgo rng * 24 * 60 * 60 * 1000)
      in case toISOString pastDate of
           Inl e \<Rightarrow> Inl e
         | Inr s \<Rightarrow> Inr (splitFirst CHR ''T'' s))"

text \<open>
  The \<open>URLSearchParams\<close> that \<open>fetchNews\<close> builds, as the list of its name-value pairs.
\<close>

definition searchParams :: "int \<Rightarrow> string \<Rightarrow> FilterState \<Rightarrow> jserror + (string \<times> string) list" where
  "searchParams now searchQuery filters =
     (case getDateFrom now (dateRange filters) of
        Inl e \<Rightarrow> Inl e
      | Inr from \<Rightarrow>
          Inr ([(''q'', searchQuery),
                (''language'', language filters),
                (''from'', from),
                (''sortBy'', ''publishedAt'')] @
               (if source filters \<noteq> ''all'' then [(''sources'', source filters)] else [])))"

section \<open>Backend: upstream parameters (server, in src/App.js)\<close>

text \<open>
  The client sends the pairs as the query string of \<open>GET /api/news\<close>, and Express hands
  the route the parsed object \<open>req.query\<close>. The names are distinct and the values are
  percent-encoded by the client and decoded by the server, so \<open>req.query\<close> maps each name
  to the string the client gave it.
\<close>

definition reqQuery :: "(string \<times> string) list \<Rightarrow> (string \<rightharpoonup> string)" where
  "reqQuery pairs = map_of pairs"

text \<open>\<open>NEWS_API_KEY\<close> is the module constant read from the environment at startup.\<close>

definition buildNewsAPIParams :: "string \<Rightarrow> (string \<rightharpoonup> string) \<Rightarrow> (string \<rightharpoonup> jsval)" where
  "buildNewsAPIParams NEWS_API_KEY filters =
     (let params = [''apiKey'' \<mapsto> JStr NEWS_API_KEY, ''pageSize'' \<mapsto> JNum 20];
          params = (case filters ''q'' of
                      None \<Rightarrow> params
                    | Some v \<Rightarrow> if v \<noteq> '''' then params(''q'' \<mapsto> JStr v) else params);
          params = (case filters ''language'' of
                      None \<Rightarrow> params
                    | Some v \<Rightarrow>
                        if v \<noteq> '''' \<and> v \<noteq> ''all'' then params(''language'' \<mapsto> JStr v)
                        else params);
          params = (case filters ''from'' of
                      None \<Rightarrow> params
                    | Some v \<Rightarrow> if v \<noteq> '''' then params(''from'' \<mapsto> JStr v) else params);
          params = (case filters ''sources'' of
                      None \<Rightarrow> params
                    | Some v \<Rightarrow>
                        if v \<noteq> '''' \<and> v \<noteq> ''all'' then params(''sources'' \<mapsto> JStr v)
                        else params)
      in params(''sortBy'' \<mapsto>
           JStr (case filters ''sortBy'' of
                   None \<Rightarrow> ''publishedAt''
                 | Some v \<Rightarrow> if v \<noteq> '''' then v else ''publishedAt'')))"

text \<open>
  The parameters of the upstream call that one fetch of the client leads to: the route
  \<open>/api/news\<close> applies \<open>buildNewsAPIParams\<close> to the \<open>req.query\<close> of the client's request.
\<close>

definition upstreamParams :: "string \<Rightarrow> int \<Rightarrow> string \<Rightarrow> FilterState \<Rightarrow> jserror + (string \<rightharpoonup> jsval)" where
  "upstreamParams NEWS_API_KEY now searchQuery filters =
     (case searchParams now searchQuery filters of
        Inl e \<Rightarrow> Inl e
      | Inr pairs \<Rightarrow> Inr (buildNewsAPIParams NEWS_API_KEY (reqQuery pairs)))"

section \<open>Backend: error normalization (server, in src/App.js)\<close>

text \<open>
  \<open>handleAPIError\<close> reads \<open>error.response\<close>, absent when no response was received, its
  \<open>status\<close> and its \<open>data.message\<close>. \<open>data\<close> is the body of the upstream's answer as the
  HTTP client parsed it: \<open>None\<close> when it is \<open>null\<close> (the JSON body \<open>null\<close>), and then reading
  its \<open>message\<close> throws \<open>TypeError\<close>, which the source does before it looks at the status;
  otherwise \<open>message\<close> is missing when the body has no such property (a body that is
  plain text, say). The result is the object \<open>{error, code}\<close>.
\<close>

record responseData =
  message :: "string option"

record response =
  status :: int
  data :: "responseData option"

datatype errorResponse = ErrorResponse string string

definition handleAPIError :: "response option \<Rightarrow> jserror + errorResponse" where
  "handleAPIError error_response =
     (case error_response of
        Some r \<Rightarrow>
          (case data r of
             None \<Rightarrow> Inl TypeError
           | Some d \<Rightarrow>
               (let msg = (case message d of
                             None \<Rightarrow> ''Unknown error''
                           | Some m \<Rightarrow> if m \<noteq> '''' then m else ''Unknown error'')
                in if status r = 401 then
                     Inr (ErrorResponse ''Invalid API key. Please check your NewsAPI key.''
                                        ''INVALID_API_KEY'')
                   else if status r = 429 then
                     Inr (ErrorResponse
                            ''API rate limit exceeded. Free tier allows 100 requests per day.''
                            ''RATE_LIMIT_EXCEEDED'')
                   else if status r = 426 then
                     Inr (ErrorResponse ''This request requires a paid NewsAPI plan.''
                                        ''UPGRADE_REQUIRED'')
                   else if status r = 500 then
                     Inr (ErrorResponse ''NewsAPI server error. Please try again later.''
                                        ''SERVER_ERROR'')
                   else Inr (ErrorResponse msg ''API_ERROR'')))
      | None \<Rightarrow>
          Inr (ErrorResponse ''Unable to connect to NewsAPI. Check your internet connection.''
                             ''NETWORK_ERROR''))"

section \<open>Backend: startup (server, in src/App.js)\<close>

text \<open>
  The server script reads \<open>PORT\<close> and \<open>NEWS_API_KEY\<close> from the environment, exits with
  code 1 when the key is falsy, and otherwise registers its routes and listens. The
  environment is a map from names to strings.
\<close>

datatype process = Exited int | Listening string jsval

definition startup :: "(string \<rightharpoonup> string) \<Rightarrow> process" where
  "startup env =
     (let PORT = (case env ''PORT'' of
                    None \<Rightarrow> JNum 5000
                  | Some p \<Rightarrow> if p \<noteq> '''' then JStr p else JNum 5000);
          NEWS_API_KEY = env ''NEWS_API_KEY''
      in case NEWS_API_KEY of
           None \<Rightarrow> Exited 1
         | Some k \<Rightarrow> if k = '''' then Exited 1 else Listening k PORT)"

section \<open>Client: the fetch lifecycle (src/App.js)\<close>

text \<open>
  The request state of \<open>App\<close> is its three state variables. Articles are opaque to it.
\<close>

record 'a AppState =
  articles :: "'a list"
  loading :: bool
  error :: "string option"

definition initialState :: "'a AppState" where
  "initialState = \<lparr>articles = [], loading = False, error = None\<rparr>"

text \<open>
  What the two awaits of \<open>fetchNews\<close> give: \<open>Failed\<close> when \<open>fetch\<close> or \<open>response.json()\<close>
  throws, otherwise the body \<open>data\<close> with its \<open>status\<close>, \<open>articles\<close> and \<open>error\<close>.
\<close>

datatype 'a fetched = Failed | Json string "'a list" "string option"

definition connectMessage :: string where
  "connectMessage =
     ''Failed to connect to the server. Make sure the backend is running on port 5000.''"

definition noArticlesMessage :: string where
  "noArticlesMessage = ''No articles found. Try different search terms or filters.''"

text \<open>
  \<open>fetchNews\<close> up to its first await: the two state updates, the parameters, the request.
  The second component is the request issued, if any; when building the parameters
  throws, the \<open>catch\<close> and \<open>finally\<close> blocks run at once and nothing is sent.
\<close>

definition fetchNews_request ::
  "int \<Rightarrow> string \<Rightarrow> FilterState \<Rightarrow> 'a AppState \<Rightarrow> 'a AppState \<times> (string \<times> string) list option" where
  "fetchNews_request now searchQuery filters s =
     (let s = s\<lparr>loading := True\<rparr>;
          s = s\<lparr>error := None\<rparr>
      in case searchParams now searchQuery filters of
           Inl e \<Rightarrow> (s\<lparr>error := Some connectMessage, loading := False\<rparr>, None)
         | Inr params \<Rightarrow> (s, Some params))"

text \<open>\<open>fetchNews\<close> from the awaits on, run when the response arrives.\<close>

definition fetchNews_response :: "'a fetched \<Rightarrow> 'a AppState \<Rightarrow> 'a AppState" where
  "fetchNews_response r s =
     (let s = (case r of
                 Json data_status data_articles data_error \<Rightarrow>
                   if data_status = ''success'' then
                     (let s = s\<lparr>articles := data_articles\<rparr>
                      in if length data_articles = 0 then s\<lparr>error := Some noArticlesMessage\<rparr>
                         else s)
                   else
                     s\<lparr>error := Some (case data_error of
                                       None \<Rightarrow> ''Failed to fetch news''
                                     | Some e \<Rightarrow> if e \<noteq> '''' then e else ''Failed to fetch news'')\<rparr>
               | Failed \<Rightarrow> s\<lparr>error := Some connectMessage\<rparr>)
      in s\<lparr>loading := False\<rparr>)"

text \<open>The effect that runs when \<open>searchQuery\<close> or \<open>filters\<close> change.\<close>

definition fetchEffect ::
  "int \<Rightarrow> string \<Rightarrow> FilterState \<Rightarrow> 'a AppState \<Rightarrow> 'a AppState \<times> (string \<times> string) list option" where
  "fetchEffect now searchQuery filters s =
     (if trim searchQuery \<noteq> '''' then fetchNews_request now searchQuery filters s
      else (s, None))"

text \<open>The results section that \<open>App\<close> renders, as the list of the elements shown.\<close>

datatype 'a element =
  LoadingSpinner | ErrorMessage string | ResultsCount nat | NewsList "'a list" | WelcomeMessage

definition render :: "string \<Rightarrow> 'a AppState \<Rightarrow> 'a element list" where
  "render searchQuery s =
     (let no_error = (case error s of None \<Rightarrow> True | Some e \<Rightarrow> e = '''')
      in (if loading s then [LoadingSpinner] else []) @
         (case error s of
            None \<Rightarrow> []
          | Some e \<Rightarrow> if e \<noteq> '''' \<and> \<not> loading s then [ErrorMessage e] else []) @
         (if \<not> loading s \<and> no_error \<and> length (articles s) > 0
          then [ResultsCount (length (articles s)), NewsList (articles s)] else []) @
         (if \<not> loading s \<and> no_error \<and> length (articles s) = 0 \<and> searchQuery = ''''
          then [WelcomeMessage] else []))"

subsection \<open>Overlapping fetches\<close>

text \<open>
  \<open>fetchNews\<close> is an async function: it runs up to its first await when the effect calls
  it, and the rest runs as one uninterrupted step when the response has arrived and its
  body is parsed (between the two awaits no state is touched). Each trigger of the effect
  may issue a request, and each request is answered once, at some later time and in any
  order. \<open>pending\<close> lists the requests not yet answered, oldest first. \<open>Trigger now q f\<close> is the effect running with query \<open>q\<close> and filters \<open>f\<close>;
  \<open>Arrival k\<close> is the answer to the \<open>k\<close>-th pending request arriving, which resumes the
  \<open>fetchNews\<close> call that sent it. \<open>respond\<close> gives the answer to a request.
\<close>

record 'a App =
  state :: "'a AppState"
  pending :: "(string \<times> string) list list"

datatype event = Trigger int string FilterState | Arrival nat

fun step :: "((string \<times> string) list \<Rightarrow> 'a fetched) \<Rightarrow> 'a App \<Rightarrow> event \<Rightarrow> 'a App" where
  "step respond a (Trigger now q f) =
     (case fetchEffect now q f (state a) of
        (s, None) \<Rightarrow> a\<lparr>state := s\<rparr>
      | (s, Some request) \<Rightarrow> a\<lparr>state := s, pending := pending a @ [request]\<rparr>)"
| "step respond a (Arrival k) =
     (if k < length (pending a)
      then a\<lparr>state := fetchNews_response (respond (pending a ! k)) (state a),
             pending := take k (pending a) @ drop (Suc k) (pending a)\<rparr>
      else a)"

definition run :: "((string \<times> string) list \<Rightarrow> 'a fetched) \<Rightarrow> 'a App \<Rightarrow> event list \<Rightarrow> 'a App" where
  "run respond a events = foldl (step respond) a events"

section \<open>Notions used in the statements\<close>

text \<open>A day number whose year is written with four digits, 0000 to 9999.\<close>

definition fourDigitYear :: "int \<Rightarrow> bool" where
  "fourDigitYear d = (0 \<le> YearFromDay d \<and> YearFromDay d \<le> 9999)"

definition isDigit :: "char \<Rightarrow> bool" where
  "isDigit c = (c \<in> set ''0123456789'')"

text \<open>The shape \<open>YYYY-MM-DD\<close>: ten characters, digits but for the two hyphens.\<close>

definition isYMD :: "string \<Rightarrow> bool" where
  "isYMD s =
     (case s of
        [y1, y2, y3, y4, h1, m1, m2, h2, d1, d2] \<Rightarrow>
          isDigit y1 \<and> isDigit y2 \<and> isDigit y3 \<and> isDigit y4 \<and> h1 = CHR ''-'' \<and>
          isDigit m1 \<and> isDigit m2 \<and> h2 = CHR ''-'' \<and> isDigit d1 \<and> isDigit d2
      | _ \<Rightarrow> False)"

text \<open>The application as it is mounted: the initial request state, nothing pending.\<close>

definition initialApp :: "'a App" where
  "initialApp = \<lparr>state = initialState, pending = []\<rparr>"

text \<open>
  A backend for the scenarios below: it answers every request with success and a single
  article, the query it was asked for, so that the articles shown tell which request
  they answer.
\<close>

definition echo :: "(string \<times> string) list \<Rightarrow> string fetched" where
  "echo request =
     (case map_of request ''q'' of
        None \<Rightarrow> Json ''error'' [] (Some ''no query'')
      | Some q \<Rightarrow> Json ''success'' [q] None)"

text \<open>The same backend, except that the call for one query fails.\<close>

definition echoBut :: "string \<Rightarrow> (string \<times> string) list \<Rightarrow> string fetched" where
  "echoBut bad request =
     (case map_of request ''q'' of
        None \<Rightarrow> Json ''error'' [] (Some ''no query'')
      | Some q \<Rightarrow> if q = bad then Failed else Json ''success'' [q] None)"

section \<open>The date model against ECMA-262\<close>

lemma div_bounds:
  fixes x :: int
  assumes "0 < k"
  shows "k * (x div k) \<le> x" and "x < k * (x div k) + k"
proof -
  have "x = k * (x div k) + x mod k" by simp
  moreover have "0 \<le> x mod k" "x mod k < k" using assms by simp_all
  ultimately show "k * (x div k) \<le> x" and "x < k * (x div k) + k" by linarith+
qed

text \<open>A year is 365.2425 days on average, and \<open>DayFromYear\<close> stays close to that.\<close>

lemma DayFromYear_bounds:
  "146097 * (y - 1970) - 506 \<le> 400 * DayFromYear y"
  "400 * DayFromYear y \<le> 146097 * (y - 1970) + 589"
proof -
  define a where "a = (y - 1969) div 4"
  define b where "b = (y - 1901) div 100"
  define c where "c = (y - 1601) div 400"
  have a: "4 * a \<le> y - 1969" "y - 1969 < 4 * a + 4"
    unfolding a_def by (rule div_bounds, simp)+
  have b: "100 * b \<le> y - 1901" "y - 1901 < 100 * b + 100"
    unfolding b_def by (rule div_bounds, simp)+
  have c: "400 * c \<le> y - 1601" "y - 1601 < 400 * c + 400"
    unfolding c_def by (rule div_bounds, simp)+
  have d: "DayFromYear y = 365 * (y - 1970) + a - b + c"
    by (simp add: DayFromYear_def a_def b_def c_def)
  show "146097 * (y - 1970) - 506 \<le> 400 * DayFromYear y"
    unfolding d using a b c by (simp add: algebra_simps)
  show "400 * DayFromYear y \<le> 146097 * (y - 1970) + 589"
    unfolding d using a b c by (simp add: algebra_simps)
qed

text \<open>
  \<open>YearFromDay\<close> is ECMA-262's \<open>YearFromTime\<close>: the day lies in the year it returns, and
  that is the largest year starting on or before the day.
\<close>

lemma YearFromDay_contains:
  "DayFromYear (YearFromDay d) \<le> d \<and> d < DayFromYear (YearFromDay d + 1)"
proof -
  define q where "q = (400 * d) div 146097"
  define c where "c = 1970 + q"
  have q: "146097 * q \<le> 400 * d" "400 * d < 146097 * q + 146097"
    unfolding q_def by (rule div_bounds, simp)+
  have lo: "DayFromYear (c - 1) \<le> d"
    using DayFromYear_bounds(2) [of "c - 1"] q unfolding c_def by (simp add: algebra_simps)
  have hi: "d < DayFromYear (c + 1 + 1)"
    using DayFromYear_bounds(1) [of "c + 1 + 1"] q unfolding c_def by (simp add: algebra_simps)
  have y: "YearFromDay d =
      (if DayFromYear (c + 1) \<le> d then c + 1 else if DayFromYear c \<le> d then c else c - 1)"
    by (simp add: YearFromDay_def c_def q_def Let_def)
  show ?thesis
    using lo hi unfolding y by auto
qed

lemma DayFromYear_step: "DayFromYear y < DayFromYear (y + 1)"
proof -
  define a where "a = (y - 1969) div 4"
  define b where "b = (y - 1901) div 100"
  define c where "c = (y - 1601) div 400"
  define a' where "a' = (y + 1 - 1969) div 4"
  define b' where "b' = (y + 1 - 1901) div 100"
  define c' where "c' = (y + 1 - 1601) div 400"
  have a: "a \<le> a'" unfolding a_def a'_def by (rule zdiv_mono1) simp_all
  have c: "c \<le> c'" unfolding c_def c'_def by (rule zdiv_mono1) simp_all
  have b: "b' \<le> b + 1"
  proof -
    have "b' \<le> (y - 1901 + 100) div 100" unfolding b'_def by (rule zdiv_mono1) simp_all
    also have "\<dots> = b + 1" by (simp add: b_def)
    finally show ?thesis .
  qed
  have "DayFromYear y = 365 * (y - 1970) + a - b + c"
    by (simp add: DayFromYear_def a_def b_def c_def)
  moreover have "DayFromYear (y + 1) = 365 * (y + 1 - 1970) + a' - b' + c'"
    by (simp add: DayFromYear_def a'_def b'_def c'_def)
  ultimately show ?thesis using a b c by simp
qed

lemma DayFromYear_mono: "y \<le> z \<Longrightarrow> DayFromYear y \<le> DayFromYear z"
proof -
  assume "y \<le> z"
  then obtain n where z: "z = y + int n" by (metis zle_iff_zadd)
  have "DayFromYear y \<le> DayFromYear (y + int n)"
  proof (induction n)
    case 0
    then show ?case by simp
  next
    case (Suc n)
    have "DayFromYear (y + int n) < DayFromYear (y + int n + 1)" by (rule DayFromYear_step)
    with Suc show ?case by (simp add: add.assoc add.commute [of 1])
  qed
  then show ?thesis by (simp add: z)
qed

lemma YearFromDay_largest: "DayFromYear y \<le> d \<Longrightarrow> y \<le> YearFromDay d"
proof (rule ccontr)
  assume le: "DayFromYear y \<le> d" and "\<not> y \<le> YearFromDay d"
  then have "YearFromDay d + 1 \<le> y" by simp
  then have "DayFromYear (YearFromDay d + 1) \<le> DayFromYear y" by (rule DayFromYear_mono)
  with le YearFromDay_contains [of d] show False by linarith
qed

text \<open>The model on time values whose ISO strings are known.\<close>

lemma toISOString_examples:
  "toISOString (TimeClip 0) = Inr ''1970-01-01T00:00:00.000Z''"
  "toISOString (TimeClip 1709210096789) = Inr ''2024-02-29T12:34:56.789Z''"
  "toISOString (TimeClip 951782400000) = Inr ''2000-02-29T00:00:00.000Z''"
  "toISOString (TimeClip (- 2208988800000)) = Inr ''1900-01-01T00:00:00.000Z''"
  "toISOString (TimeClip (- 1)) = Inr ''1969-12-31T23:59:59.999Z''"
  "toISOString (TimeClip 253402300799999) = Inr ''9999-12-31T23:59:59.999Z''"
  "toISOString (TimeClip 253402300800000) = Inr ''+010000-01-01T00:00:00.000Z''"
  "toISOString (TimeClip 8640000000000000) = Inr ''+275760-09-13T00:00:00.000Z''"
  "toISOString (TimeClip (- 8640000000000000)) = Inr ''-271821-04-20T00:00:00.000Z''"
  "toISOString (TimeClip 8640000000000001) = Inl RangeError"
  by code_simp+

section \<open>The date of a request\<close>

lemma isDigit_digit: "isDigit (digit n)"
proof -
  have "nat (n mod 10) < length ''0123456789''" by simp
  then have "''0123456789'' ! nat (n mod 10) \<in> set ''0123456789''" by (rule nth_mem)
  then show ?thesis by (simp add: isDigit_def digit_def)
qed

lemma digit_not_T: "digit n \<noteq> CHR ''T'' \<and> CHR ''T'' \<noteq> digit n"
  using isDigit_digit [of n] by (auto simp: isDigit_def)

lemma T_notin_isoYear: "CHR ''T'' \<notin> set (isoYear y)"
  by (simp add: isoYear_def pad4_def pad6_def digit_not_T)

lemma T_notin_isoDate: "CHR ''T'' \<notin> set (isoDate d)"
  by (simp add: isoDate_def pad2_def digit_not_T T_notin_isoYear)

lemma splitFirst_prefix: "c \<notin> set xs \<Longrightarrow> splitFirst c (xs @ c # ys) = xs"
  by (induction xs) (auto simp: splitFirst_def)

lemma splitFirst_isoDate:
  "splitFirst CHR ''T'' (isoDate d @ CHR ''T'' # rest) = isoDate d"
  by (rule splitFirst_prefix [OF T_notin_isoDate])

lemma isoDate_nonempty: "isoDate d \<noteq> ''''"
  by (simp add: isoDate_def)

lemma Day_minus_days: "Day (t - n * msPerDay) = Day t - n"
proof -
  have "t - n * msPerDay = t + (- n) * msPerDay" by simp
  then have "(t - n * msPerDay) div msPerDay = (- n) + t div msPerDay"
    by (simp only: div_mult_self3) (simp add: msPerDay_def)
  then show ?thesis by (simp add: Day_def)
qed

text \<open>
  Whenever the past date is a valid \<open>Date\<close>, \<open>getDateFrom\<close> returns the ISO date of the day
  \<open>daysAgo\<close> days before the day of \<open>now\<close>.
\<close>

lemma getDateFrom_valid:
  assumes "TimeClip (now - daysAgo rng * msPerDay) \<noteq> None"
  shows "getDateFrom now rng = Inr (isoDate (Day now - daysAgo rng))"
proof -
  from assms have clip:
    "TimeClip (now - daysAgo rng * msPerDay) = Some (now - daysAgo rng * msPerDay)"
    by (simp add: TimeClip_def split: if_splits)
  have ms: "daysAgo rng * 24 * 60 * 60 * 1000 = daysAgo rng * msPerDay"
    by (simp add: msPerDay_def)
  have "getDateFrom now rng =
          (case toISOString (TimeClip (now - daysAgo rng * msPerDay)) of
             Inl e \<Rightarrow> Inl e
           | Inr s \<Rightarrow> Inr (splitFirst CHR ''T'' s))"
    unfolding getDateFrom_def Let_def ms ..
  also have "\<dots> = Inr (isoDate (Day (now - daysAgo rng * msPerDay)))"
    unfolding clip by (simp add: toISOString_def splitFirst_isoDate)
  finally show ?thesis by (simp add: Day_minus_days)
qed

text \<open>Otherwise it raises, so the past date is valid exactly when it returns.\<close>

lemma getDateFrom_invalid:
  assumes "TimeClip (now - daysAgo rng * msPerDay) = None"
  shows "getDateFrom now rng = Inl RangeError"
proof -
  have ms: "daysAgo rng * 24 * 60 * 60 * 1000 = daysAgo rng * msPerDay"
    by (simp add: msPerDay_def)
  show ?thesis
    unfolding getDateFrom_def Let_def ms assms by (simp add: toISOString_def)
qed

lemma isYMD_isoDate: "fourDigitYear d \<Longrightarrow> isYMD (isoDate d)"
  by (simp add: fourDigitYear_def isYMD_def isoDate_def isoYear_def pad4_def pad2_def
        isDigit_digit)

lemma YearFromDay_estimate:
  "1969 + (400 * d) div 146097 \<le> YearFromDay d \<and>
   YearFromDay d \<le> 1971 + (400 * d) div 146097"
  by (simp add: YearFromDay_def Let_def)

lemma fourDigitYear_days:
  assumes "fourDigitYear d"
  shows "- 720000 \<le> d \<and> d \<le> 2940000"
proof -
  define q where "q = (400 * d) div 146097"
  have q: "146097 * q \<le> 400 * d" "400 * d < 146097 * q + 146097"
    unfolding q_def by (rule div_bounds, simp)+
  from assms YearFromDay_estimate [of d] have "- 1971 \<le> q" "q \<le> 8030"
    by (simp_all add: fourDigitYear_def q_def)
  with q show ?thesis by linarith
qed

text \<open>A date in the years 0000 to 9999 is a valid \<open>Date\<close>, at any time of the day.\<close>

lemma fourDigitYear_valid:
  assumes "fourDigitYear (Day t)"
  shows "TimeClip t \<noteq> None"
proof -
  have d: "- 720000 \<le> t div msPerDay" "t div msPerDay \<le> 2940000"
    using fourDigitYear_days [OF assms] by (simp_all add: Day_def)
  have "msPerDay * (t div msPerDay) \<le> t" "t < msPerDay * (t div msPerDay) + msPerDay"
    by (rule div_bounds, simp add: msPerDay_def)+
  with d show ?thesis by (simp add: TimeClip_def msPerDay_def)
qed

text \<open>
  C2. For every date range and every clock reading \<open>now\<close>, the number of days \<open>N\<close> is 1
  for \<open>today\<close>, 7 for \<open>week\<close>, 30 for \<open>month\<close> and 7 for every other value. Whenever the
  past date is a valid \<open>Date\<close>, \<open>from\<close> is the calendar date of \<open>now\<close> minus \<open>N\<close> days, that
  is the date \<open>N\<close> days before the UTC day of \<open>now\<close>, written without a time of day, and two
  readings on the same UTC day give the same \<open>from\<close>. Whenever that date has a four-digit
  year, 0000 to 9999, it is a valid \<open>Date\<close> at every time of the day and \<open>from\<close> has the
  shape \<open>YYYY-MM-DD\<close>.
\<close>

theorem getDateFrom_days_ago:
  "daysAgo rng = (if rng = ''today'' then 1 else if rng = ''month'' then 30 else 7) \<and>
   (TimeClip (now - daysAgo rng * msPerDay) \<noteq> None \<longrightarrow>
      getDateFrom now rng = Inr (isoDate (Day (now - daysAgo rng * msPerDay))) \<and>
      getDateFrom now rng = Inr (isoDate (Day now - daysAgo rng)) \<and>
      (\<forall>now'. Day now' = Day now \<and> TimeClip (now' - daysAgo rng * msPerDay) \<noteq> None \<longrightarrow>
         getDateFrom now' rng = getDateFrom now rng)) \<and>
   (fourDigitYear (Day now - daysAgo rng) \<longrightarrow>
      TimeClip (now - daysAgo rng * msPerDay) \<noteq> None \<and>
      isYMD (isoDate (Day now - daysAgo rng)) \<and>
      (\<forall>now'. Day now' = Day now \<longrightarrow> getDateFrom now' rng = getDateFrom now rng))"
proof -
  have n: "daysAgo rng = (if rng = ''today'' then 1 else if rng = ''month'' then 30 else 7)"
    by (simp add: daysAgo_def)
  have eq: "getDateFrom t rng = Inr (isoDate (Day now - daysAgo rng))"
    if "Day t = Day now" and "TimeClip (t - daysAgo rng * msPerDay) \<noteq> None" for t
    using getDateFrom_valid [OF that(2)] that(1) by simp
  have valid: "TimeClip (t - daysAgo rng * msPerDay) \<noteq> None"
    if "fourDigitYear (Day now - daysAgo rng)" and "Day t = Day now" for t
    using that fourDigitYear_valid [of "t - daysAgo rng * msPerDay"]
    by (simp add: Day_minus_days)
  have general: "getDateFrom now rng = Inr (isoDate (Day (now - daysAgo rng * msPerDay))) \<and>
      getDateFrom now rng = Inr (isoDate (Day now - daysAgo rng)) \<and>
      (\<forall>now'. Day now' = Day now \<and> TimeClip (now' - daysAgo rng * msPerDay) \<noteq> None \<longrightarrow>
         getDateFrom now' rng = getDateFrom now rng)"
    if "TimeClip (now - daysAgo rng * msPerDay) \<noteq> None"
  proof (intro conjI allI impI)
    show "getDateFrom now rng = Inr (isoDate (Day (now - daysAgo rng * msPerDay)))"
      by (simp only: eq [OF refl that] Day_minus_days)
    show "getDateFrom now rng = Inr (isoDate (Day now - daysAgo rng))"
      by (rule eq [OF refl that])
    show "getDateFrom t rng = getDateFrom now rng"
      if "Day t = Day now \<and> TimeClip (t - daysAgo rng * msPerDay) \<noteq> None" for t
    proof -
      from that have "getDateFrom t rng = Inr (isoDate (Day now - daysAgo rng))"
        by (intro eq) simp_all
      then show ?thesis
        by (simp only: eq [OF refl \<open>TimeClip (now - daysAgo rng * msPerDay) \<noteq> None\<close>])
    qed
  qed
  have four: "TimeClip (now - daysAgo rng * msPerDay) \<noteq> None \<and>
      isYMD (isoDate (Day now - daysAgo rng)) \<and>
      (\<forall>now'. Day now' = Day now \<longrightarrow> getDateFrom now' rng = getDateFrom now rng)"
    if y: "fourDigitYear (Day now - daysAgo rng)"
  proof (intro conjI allI impI)
    show "TimeClip (now - daysAgo rng * msPerDay) \<noteq> None"
      by (rule valid [OF y refl])
    show "isYMD (isoDate (Day now - daysAgo rng))"
      by (rule isYMD_isoDate [OF y])
    show "getDateFrom t rng = getDateFrom now rng" if "Day t = Day now" for t
      by (simp only: eq [OF that valid [OF y that]] eq [OF refl valid [OF y refl]])
  qed
  show ?thesis
  proof (intro conjI impI)
    show "daysAgo rng = (if rng = ''today'' then 1 else if rng = ''month'' then 30 else 7)"
      by (rule n)
  qed (use general four in blast)+
qed

lemma isoDate_examples:
  "isoDate 20447 = ''2025-12-25''"
  "isoDate 20424 = ''2025-12-02''"
  "YearFromDay 20447 = 2025"
  by code_simp+

theorem getDateFrom_days_ago_witness:
  "TimeClip (1767225600000 - daysAgo ''week'' * msPerDay) \<noteq> None \<and>
   fourDigitYear (Day 1767225600000 - daysAgo ''week'') \<and>
   daysAgo ''week'' = 7 \<and>
   getDateFrom 1767225600000 ''week'' = Inr ''2025-12-25'' \<and>
   isYMD ''2025-12-25'' \<and>
   Day 1767311999999 = Day 1767225600000 \<and>
   getDateFrom 1767311999999 ''week'' = Inr ''2025-12-25''"
proof -
  have day: "Day 1767225600000 - daysAgo ''week'' = 20447"
    by (simp add: Day_def msPerDay_def daysAgo_def)
  have same: "Day 1767311999999 = Day 1767225600000"
    by (simp add: Day_def msPerDay_def)
  have h: "TimeClip (1767225600000 - daysAgo ''week'' * msPerDay) \<noteq> None"
    by (simp add: TimeClip_def daysAgo_def msPerDay_def)
  have y: "fourDigitYear (Day 1767225600000 - daysAgo ''week'')"
    unfolding day by (simp add: fourDigitYear_def isoDate_examples)
  note inst = getDateFrom_days_ago [of "''week''" 1767225600000, unfolded day isoDate_examples]
  from inst have "daysAgo ''week'' = 7" by simp
  moreover from inst h have a: "getDateFrom 1767225600000 ''week'' = Inr ''2025-12-25''" by blast
  moreover from inst y have "isYMD ''2025-12-25''" unfolding day by blast
  moreover from inst y same
  have "getDateFrom 1767311999999 ''week'' = getDateFrom 1767225600000 ''week''"
    unfolding day by blast
  ultimately show ?thesis using h y same by simp
qed

section \<open>The parameters sent upstream\<close>

lemma searchParams_valid:
  assumes "TimeClip (now - daysAgo (dateRange filters) * msPerDay) \<noteq> None"
  shows "searchParams now searchQuery filters =
           Inr ([(''q'', searchQuery),
                 (''language'', language filters),
                 (''from'', isoDate (Day now - daysAgo (dateRange filters))),
                 (''sortBy'', ''publishedAt'')] @
                (if source filters \<noteq> ''all'' then [(''sources'', source filters)] else []))"
  by (simp add: searchParams_def getDateFrom_valid [OF assms])

lemma upstreamParams_valid:
  assumes "TimeClip (now - daysAgo (dateRange filters) * msPerDay) \<noteq> None"
  shows "upstreamParams key now searchQuery filters =
           Inr (buildNewsAPIParams key
                  (reqQuery ([(''q'', searchQuery),
                              (''language'', language filters),
                              (''from'', isoDate (Day now - daysAgo (dateRange filters))),
                              (''sortBy'', ''publishedAt'')] @
                             (if source filters \<noteq> ''all''
                              then [(''sources'', source filters)] else []))))"
  by (simp add: upstreamParams_def searchParams_valid [OF assms])

text \<open>
  The keys for any strings in the filter: the backend tests each value for truthiness,
  so an empty language or source is left out like \<open>all\<close>.
\<close>

lemma buildNewsAPIParams_dom:
  assumes "TimeClip (now - daysAgo (dateRange filters) * msPerDay) \<noteq> None"
  shows "\<exists>pairs. searchParams now searchQuery filters = Inr pairs \<and>
           dom (buildNewsAPIParams key (reqQuery pairs)) =
             {''apiKey'', ''pageSize'', ''sortBy'', ''from''} \<union>
             (if searchQuery \<noteq> '''' then {''q''} else {}) \<union>
             (if language filters \<noteq> '''' \<and> language filters \<noteq> ''all''
              then {''language''} else {}) \<union>
             (if source filters \<noteq> '''' \<and> source filters \<noteq> ''all''
              then {''sources''} else {})"
  by (auto simp: searchParams_valid [OF assms] buildNewsAPIParams_def reqQuery_def
        isoDate_nonempty)

lemma getDateFrom_examples:
  "getDateFrom 1767225600000 ''week'' = Inr ''2025-12-25''"
  "getDateFrom 1767225600000 ''month'' = Inr ''2025-12-02''"
  "getDateFrom 1767225600000 ''today'' = Inr ''2025-12-31''"
  "getDateFrom 1767225600000 ''year'' = Inr ''2025-12-25''"
  by code_simp+

text \<open>
  C1 (amended). For every query string and every filter state with a language and a
  source (neither is the empty string), whenever the date of the request is a valid
  \<open>Date\<close>, the parameters sent upstream have exactly these keys: \<open>q\<close> if and only if the
  query is not the empty string, with the query as typed, untrimmed; \<open>language\<close> if and
  only if the language filter is not \<open>all\<close>; \<open>from\<close> always; \<open>sources\<close> if and only if the
  source filter is not \<open>all\<close>, and then equal to it; \<open>sortBy\<close>, always \<open>publishedAt\<close>;
  \<open>pageSize\<close>, always 20; and \<open>apiKey\<close>, the server's credential.
\<close>

theorem upstreamParams_keys:
  assumes "TimeClip (now - daysAgo (dateRange filters) * msPerDay) \<noteq> None"
    and "language filters \<noteq> ''''" and "source filters \<noteq> ''''"
  shows "\<exists>m. upstreamParams key now searchQuery filters = Inr m \<and>
           dom m = {''apiKey'', ''pageSize'', ''sortBy'', ''from''} \<union>
                   (if searchQuery \<noteq> '''' then {''q''} else {}) \<union>
                   (if language filters \<noteq> ''all'' then {''language''} else {}) \<union>
                   (if source filters \<noteq> ''all'' then {''sources''} else {}) \<and>
           (searchQuery \<noteq> '''' \<longrightarrow> m ''q'' = Some (JStr searchQuery)) \<and>
           (language filters \<noteq> ''all'' \<longrightarrow> m ''language'' = Some (JStr (language filters))) \<and>
           m ''from'' = Some (JStr (isoDate (Day now - daysAgo (dateRange filters)))) \<and>
           (source filters \<noteq> ''all'' \<longrightarrow> m ''sources'' = Some (JStr (source filters))) \<and>
           m ''sortBy'' = Some (JStr ''publishedAt'') \<and>
           m ''pageSize'' = Some (JNum 20) \<and>
           m ''apiKey'' = Some (JStr key)"
  using assms(2,3)
  by (auto simp: upstreamParams_valid [OF assms(1)] buildNewsAPIParams_def reqQuery_def
        isoDate_nonempty)

text \<open>
  C1 as stated fails. For the query \<open>technology\<close> and the default filters the keys include
  \<open>apiKey\<close>, which the claim's list of keys leaves out. For a query of two spaces, which
  is empty after trimming, \<open>q\<close> is among the keys all the same.
\<close>

theorem upstreamParams_keys_counterexample:
  "upstreamParams ''KEY'' 1767225600000 ''technology'' initialFilters =
     Inr [''apiKey'' \<mapsto> JStr ''KEY'', ''pageSize'' \<mapsto> JNum 20,
          ''q'' \<mapsto> JStr ''technology'', ''language'' \<mapsto> JStr ''en'',
          ''from'' \<mapsto> JStr ''2025-12-25'', ''sortBy'' \<mapsto> JStr ''publishedAt''] \<and>
   trim ''  '' = '''' \<and>
   upstreamParams ''KEY'' 1767225600000 ''  '' initialFilters =
     Inr [''apiKey'' \<mapsto> JStr ''KEY'', ''pageSize'' \<mapsto> JNum 20, ''q'' \<mapsto> JStr ''  '',
          ''language'' \<mapsto> JStr ''en'', ''from'' \<mapsto> JStr ''2025-12-25'',
          ''sortBy'' \<mapsto> JStr ''publishedAt'']"
  by (simp add: trim_def isWhiteSpace_def upstreamParams_def searchParams_def
        getDateFrom_examples initialFilters_def buildNewsAPIParams_def reqQuery_def)

theorem upstreamParams_keys_witness:
  "TimeClip (1767225600000 - daysAgo (dateRange initialFilters) * msPerDay) \<noteq> None \<and>
   language initialFilters \<noteq> '''' \<and> source initialFilters \<noteq> '''' \<and>
   (\<exists>m. upstreamParams ''KEY'' 1767225600000 ''technology'' initialFilters = Inr m \<and>
        dom m = {''apiKey'', ''pageSize'', ''sortBy'', ''from'', ''q'', ''language''} \<and>
        m ''q'' = Some (JStr ''technology'') \<and>
        m ''language'' = Some (JStr ''en'') \<and>
        m ''from'' = Some (JStr ''2025-12-25'') \<and>
        m ''sources'' = None \<and>
        m ''sortBy'' = Some (JStr ''publishedAt'') \<and>
        m ''pageSize'' = Some (JNum 20) \<and>
        m ''apiKey'' = Some (JStr ''KEY''))"
proof -
  have h1: "TimeClip (1767225600000 - daysAgo (dateRange initialFilters) * msPerDay) \<noteq> None"
    by (simp add: TimeClip_def initialFilters_def daysAgo_def msPerDay_def)
  have h2: "language initialFilters \<noteq> ''''" and h3: "source initialFilters \<noteq> ''''"
    by (simp_all add: initialFilters_def)
  have day: "Day 1767225600000 - daysAgo (dateRange initialFilters) = 20447"
    by (simp add: Day_def msPerDay_def daysAgo_def initialFilters_def)
  obtain m where m: "upstreamParams ''KEY'' 1767225600000 ''technology'' initialFilters = Inr m"
    and d: "dom m = {''apiKey'', ''pageSize'', ''sortBy'', ''from''} \<union>
                   (if ''technology'' \<noteq> '''' then {''q''} else {}) \<union>
                   (if language initialFilters \<noteq> ''all'' then {''language''} else {}) \<union>
                   (if source initialFilters \<noteq> ''all'' then {''sources''} else {})"
    and q: "m ''q'' = Some (JStr ''technology'')"
    and l: "m ''language'' = Some (JStr ''en'')"
    and f: "m ''from'' = Some (JStr ''2025-12-25'')"
    and r: "m ''sortBy'' = Some (JStr ''publishedAt'')" "m ''pageSize'' = Some (JNum 20)"
           "m ''apiKey'' = Some (JStr ''KEY'')"
    using upstreamParams_keys [OF h1 h2 h3, of "''KEY''" "''technology''"]
    unfolding day isoDate_examples by (auto simp: initialFilters_def)
  from d have d': "dom m = {''apiKey'', ''pageSize'', ''sortBy'', ''from'', ''q'', ''language''}"
    by (auto simp: initialFilters_def)
  have "''sources'' \<notin> dom m" unfolding d' by simp
  then have "m ''sources'' = None" by (simp add: domIff)
  with m d' q l f r h1 h2 h3 show ?thesis by blast
qed

text \<open>
  C7. Round trip: for every filter state with a language and a source (neither is the
  empty string), whenever the date of the request is a valid \<open>Date\<close>, the client's
  encoding of the state into request parameters, decoded by the backend, gives upstream
  parameters with the filter the state denotes: its language unless that is \<open>all\<close>,
  the date \<open>daysAgo\<close> days before today, and its source unless that is \<open>all\<close>.
\<close>

theorem filter_round_trip:
  assumes "TimeClip (now - daysAgo (dateRange filters) * msPerDay) \<noteq> None"
    and "language filters \<noteq> ''''" and "source filters \<noteq> ''''"
  shows "\<exists>pairs. searchParams now searchQuery filters = Inr pairs \<and>
           buildNewsAPIParams key (reqQuery pairs) ''language'' =
             (if language filters = ''all'' then None else Some (JStr (language filters))) \<and>
           buildNewsAPIParams key (reqQuery pairs) ''from'' =
             Some (JStr (isoDate (Day now - daysAgo (dateRange filters)))) \<and>
           buildNewsAPIParams key (reqQuery pairs) ''sources'' =
             (if source filters = ''all'' then None else Some (JStr (source filters)))"
  using assms(2,3)
  by (simp add: searchParams_valid [OF assms(1)] buildNewsAPIParams_def reqQuery_def
        isoDate_nonempty Let_def)

theorem filter_round_trip_witness:
  "TimeClip (1767225600000 - daysAgo ''month'' * msPerDay) \<noteq> None \<and>
   (\<exists>pairs.
      searchParams 1767225600000 ''climate''
        \<lparr>language = ''fr'', dateRange = ''month'', source = ''bbc-news'', others = Map.empty\<rparr> =
        Inr pairs \<and>
      buildNewsAPIParams ''KEY'' (reqQuery pairs) ''language'' = Some (JStr ''fr'') \<and>
      buildNewsAPIParams ''KEY'' (reqQuery pairs) ''from'' = Some (JStr ''2025-12-02'') \<and>
      buildNewsAPIParams ''KEY'' (reqQuery pairs) ''sources'' = Some (JStr ''bbc-news''))"
proof -
  let ?f = "\<lparr>language = ''fr'', dateRange = ''month'', source = ''bbc-news'', others = Map.empty\<rparr>"
  have h1: "TimeClip (1767225600000 - daysAgo (dateRange ?f) * msPerDay) \<noteq> None"
    by (simp add: TimeClip_def daysAgo_def msPerDay_def)
  have h2: "language ?f \<noteq> ''''" and h3: "source ?f \<noteq> ''''"
    by simp_all
  have day: "Day 1767225600000 - daysAgo (dateRange ?f) = 20424"
    by (simp add: Day_def msPerDay_def daysAgo_def)
  show ?thesis
    using h1 filter_round_trip [OF h1 h2 h3, of "''climate''" "''KEY''"]
    unfolding day isoDate_examples by simp
qed

section \<open>Error normalization and startup\<close>

text \<open>
  C3 (amended). For every failed upstream call whose response body is not \<open>null\<close>, and
  for every call that got no response, \<open>handleAPIError\<close> gives one code and one message:
  status 401 gives \<open>INVALID_API_KEY\<close> (invalid API key), 429 \<open>RATE_LIMIT_EXCEEDED\<close> (rate
  limit), 426 \<open>UPGRADE_REQUIRED\<close> (paid plan) and 500 \<open>SERVER_ERROR\<close> (try again later),
  whatever the body holds; any other status with a response gives \<open>API_ERROR\<close> with the
  upstream's message passed through when it is a non-empty string, and with \<open>Unknown
  error\<close> when the message is empty or missing; no response gives \<open>NETWORK_ERROR\<close> with a
  fixed connection message.
\<close>

theorem handleAPIError_table:
  "handleAPIError (Some \<lparr>status = 401, data = Some d\<rparr>) =
     Inr (ErrorResponse ''Invalid API key. Please check your NewsAPI key.''
                        ''INVALID_API_KEY'') \<and>
   handleAPIError (Some \<lparr>status = 429, data = Some d\<rparr>) =
     Inr (ErrorResponse ''API rate limit exceeded. Free tier allows 100 requests per day.''
                        ''RATE_LIMIT_EXCEEDED'') \<and>
   handleAPIError (Some \<lparr>status = 426, data = Some d\<rparr>) =
     Inr (ErrorResponse ''This request requires a paid NewsAPI plan.'' ''UPGRADE_REQUIRED'') \<and>
   handleAPIError (Some \<lparr>status = 500, data = Some d\<rparr>) =
     Inr (ErrorResponse ''NewsAPI server error. Please try again later.'' ''SERVER_ERROR'') \<and>
   (s \<notin> {401, 429, 426, 500} \<and> m \<noteq> '''' \<longrightarrow>
      handleAPIError (Some \<lparr>status = s, data = Some \<lparr>message = Some m\<rparr>\<rparr>) =
        Inr (ErrorResponse m ''API_ERROR'')) \<and>
   (s \<notin> {401, 429, 426, 500} \<longrightarrow>
      handleAPIError (Some \<lparr>status = s, data = Some \<lparr>message = Some ''''\<rparr>\<rparr>) =
        Inr (ErrorResponse ''Unknown error'' ''API_ERROR'') \<and>
      handleAPIError (Some \<lparr>status = s, data = Some \<lparr>message = None\<rparr>\<rparr>) =
        Inr (ErrorResponse ''Unknown error'' ''API_ERROR'')) \<and>
   handleAPIError None =
     Inr (ErrorResponse ''Unable to connect to NewsAPI. Check your internet connection.''
                        ''NETWORK_ERROR'')"
  by (simp add: handleAPIError_def)

text \<open>
  C3 as stated fails. A response with status 401 whose body is \<open>null\<close> gets no code at
  all: reading \<open>data.message\<close> throws before the status is looked at. And for a status
  outside the table an empty upstream message is not passed through: the message is
  \<open>Unknown error\<close>.
\<close>

theorem handleAPIError_table_counterexample:
  "handleAPIError (Some \<lparr>status = 401, data = None\<rparr>) = Inl TypeError \<and>
   handleAPIError (Some \<lparr>status = 404, data = Some \<lparr>message = Some ''''\<rparr>\<rparr>) =
     Inr (ErrorResponse ''Unknown error'' ''API_ERROR'')"
  by (simp add: handleAPIError_def)

theorem handleAPIError_table_witness:
  "(404 :: int) \<notin> {401, 429, 426, 500} \<and> ''No such source'' \<noteq> '''' \<and>
   handleAPIError (Some \<lparr>status = 404, data = Some \<lparr>message = Some ''No such source''\<rparr>\<rparr>) =
     Inr (ErrorResponse ''No such source'' ''API_ERROR'') \<and>
   handleAPIError (Some \<lparr>status = 404, data = Some \<lparr>message = Some ''''\<rparr>\<rparr>) =
     Inr (ErrorResponse ''Unknown error'' ''API_ERROR'') \<and>
   handleAPIError (Some \<lparr>status = 404, data = Some \<lparr>message = None\<rparr>\<rparr>) =
     Inr (ErrorResponse ''Unknown error'' ''API_ERROR'') \<and>
   handleAPIError (Some \<lparr>status = 429, data = Some \<lparr>message = Some ''Too many requests''\<rparr>\<rparr>) =
     Inr (ErrorResponse ''API rate limit exceeded. Free tier allows 100 requests per day.''
                        ''RATE_LIMIT_EXCEEDED'')"
  using handleAPIError_table
          [of "\<lparr>message = Some ''Too many requests''\<rparr>" 404 "''No such source''"]
  by simp

text \<open>
  C8. The backend exits at startup, with code 1 and before it listens for any request,
  exactly when the environment holds no API key (the variable is unset or empty); with a
  key it goes on to listen, holding that key.
\<close>

theorem startup_requires_key:
  "(startup env = Exited 1 \<longleftrightarrow>
      env ''NEWS_API_KEY'' = None \<or> env ''NEWS_API_KEY'' = Some '''') \<and>
   ((\<exists>port. startup env = Listening k port) \<longleftrightarrow>
      env ''NEWS_API_KEY'' = Some k \<and> k \<noteq> '''')"
  by (auto simp: startup_def Let_def split: option.splits)

theorem startup_requires_key_witness:
  "startup Map.empty = Exited 1 \<and>
   startup [''PORT'' \<mapsto> ''8080''] = Exited 1 \<and>
   startup [''NEWS_API_KEY'' \<mapsto> ''''] = Exited 1 \<and>
   (\<exists>port. startup [''NEWS_API_KEY'' \<mapsto> ''abc123''] = Listening ''abc123'' port) \<and>
   startup [''NEWS_API_KEY'' \<mapsto> ''abc123'', ''PORT'' \<mapsto> ''8080''] =
     Listening ''abc123'' (JStr ''8080'')"
  using startup_requires_key [of Map.empty]
        startup_requires_key [of "[''PORT'' \<mapsto> ''8080'']"]
        startup_requires_key [of "[''NEWS_API_KEY'' \<mapsto> '''']"]
        startup_requires_key [of "[''NEWS_API_KEY'' \<mapsto> ''abc123'']" "''abc123''"]
  by (simp add: startup_def)

section \<open>The fetch lifecycle\<close>

lemma run_snoc: "run respond a (events @ [e]) = step respond (run respond a events) e"
  by (simp add: run_def)

text \<open>A trigger with a query that is not blank, on a valid date, does send a request.\<close>

lemma fetchEffect_sends:
  assumes "trim searchQuery \<noteq> ''''"
    and "TimeClip (now - daysAgo (dateRange filters) * msPerDay) \<noteq> None"
  shows "\<exists>request. fetchEffect now searchQuery filters s =
           (s\<lparr>loading := True, error := None\<rparr>, Some request)"
  using assms(1)
  by (simp add: fetchEffect_def fetchNews_request_def searchParams_valid [OF assms(2)])

text \<open>
  C4 (amended). When the call returns a success response whose article list is empty,
  the client stores the empty list and clears \<open>loading\<close>, and it puts the message \<open>No
  articles found. Try different search terms or filters.\<close> into the same \<open>error\<close> state
  that failures use; the results section then shows that message in the error banner and
  nothing else. The text differs from the client's two fixed failure messages.
\<close>

theorem empty_success_in_error_state:
  "fetchNews_response (Json ''success'' [] e) s =
     \<lparr>articles = [], loading = False, error = Some noArticlesMessage\<rparr> \<and>
   render searchQuery (fetchNews_response (Json ''success'' [] e) s) =
     [ErrorMessage noArticlesMessage] \<and>
   noArticlesMessage \<noteq> connectMessage \<and> noArticlesMessage \<noteq> ''Failed to fetch news''"
  by (simp add: fetchNews_response_def render_def noArticlesMessage_def connectMessage_def)

text \<open>
  C4 as stated fails: after an empty success the request state is the very state an error
  response carrying that message leaves, and the results section shows the error banner, the
  element it shows for a failed call.
\<close>

theorem empty_success_counterexample:
  "fetchNews_response (Json ''success'' [] None) (initialState\<lparr>loading := True\<rparr> :: nat AppState) =
     fetchNews_response (Json ''error'' [] (Some noArticlesMessage))
       (initialState\<lparr>loading := True\<rparr>) \<and>
   render ''technology''
     (fetchNews_response (Json ''success'' [] None) (initialState\<lparr>loading := True\<rparr> :: nat AppState)) =
     [ErrorMessage noArticlesMessage] \<and>
   render ''technology''
     (fetchNews_response Failed (initialState\<lparr>loading := True\<rparr> :: nat AppState)) =
     [ErrorMessage connectMessage]"
  by (simp add: fetchNews_response_def render_def initialState_def noArticlesMessage_def
        connectMessage_def)

text \<open>
  C5 (amended). For every query that is empty or only white space, the effect issues no
  network call and leaves the request state exactly as it was: an idle state stays idle,
  and the articles or the error message of an earlier fetch stay as they are.
\<close>

theorem blank_query_no_fetch:
  assumes "trim searchQuery = ''''"
  shows "fetchEffect now searchQuery filters s = (s, None) \<and>
         step respond a (Trigger now searchQuery filters) = a"
  using assms by (simp add: fetchEffect_def)

theorem blank_query_no_fetch_witness:
  "trim [CHR '' '', CHR 0x09] = '''' \<and>
   fetchEffect 1767225600000 [CHR '' '', CHR 0x09] initialFilters
     (\<lparr>articles = [1, 2], loading = False, error = None\<rparr> :: nat AppState) =
     (\<lparr>articles = [1, 2], loading = False, error = None\<rparr>, None) \<and>
   step echo initialApp (Trigger 1767225600000 [CHR '' '', CHR 0x09] initialFilters) = initialApp"
proof -
  have blank: "trim [CHR '' '', CHR 0x09] = ''''"
    by (simp add: trim_def isWhiteSpace_def)
  show ?thesis
    using blank blank_query_no_fetch [OF blank] by simp
qed

text \<open>
  C5 as stated fails: a fetch for \<open>technology\<close> fails, then the query is cleared. No
  request is sent, but the request state does not return to the idle state: it still
  holds the failure, and the error banner is still shown.
\<close>

theorem blank_query_counterexample:
  "trim '''' = '''' \<and>
   run (\<lambda>request. Failed) initialApp
     [Trigger 1767225600000 ''technology'' initialFilters, Arrival 0,
      Trigger 1767225600000 '''' initialFilters] =
     \<lparr>state = \<lparr>articles = ([] :: nat list), loading = False, error = Some connectMessage\<rparr>,
      pending = []\<rparr> \<and>
   \<lparr>articles = ([] :: nat list), loading = False, error = Some connectMessage\<rparr> \<noteq> initialState \<and>
   render '''' \<lparr>articles = ([] :: nat list), loading = False, error = Some connectMessage\<rparr> =
     [ErrorMessage connectMessage]"
  by (simp add: run_def initialApp_def fetchEffect_def fetchNews_request_def
        fetchNews_response_def searchParams_def getDateFrom_examples initialState_def
        initialFilters_def trim_def isWhiteSpace_def render_def connectMessage_def)

text \<open>What the arrival of each kind of response does to the request state.\<close>

lemma fetchNews_response_cases:
  "arts \<noteq> [] \<Longrightarrow>
     fetchNews_response (Json ''success'' arts e) s = s\<lparr>articles := arts, loading := False\<rparr>"
  "fetchNews_response (Json ''success'' [] e) s =
     \<lparr>articles = [], loading = False, error = Some noArticlesMessage\<rparr>"
  "st \<noteq> ''success'' \<Longrightarrow> m \<noteq> '''' \<Longrightarrow>
     fetchNews_response (Json st arts (Some m)) s = s\<lparr>error := Some m, loading := False\<rparr>"
  "st \<noteq> ''success'' \<Longrightarrow> e = None \<or> e = Some '''' \<Longrightarrow>
     fetchNews_response (Json st arts e) s =
       s\<lparr>error := Some ''Failed to fetch news'', loading := False\<rparr>"
  "fetchNews_response Failed s = s\<lparr>error := Some connectMessage, loading := False\<rparr>"
  by (auto simp: fetchNews_response_def Let_def)

text \<open>What the results section shows once loading is cleared.\<close>

lemma render_error: "m \<noteq> '''' \<Longrightarrow> render q (s\<lparr>error := Some m, loading := False\<rparr>) = [ErrorMessage m]"
  by (simp add: render_def)

lemma render_articles:
  "arts \<noteq> [] \<Longrightarrow>
   render q (s\<lparr>articles := arts, loading := False\<rparr>) =
     (case error s of
        None \<Rightarrow> [ResultsCount (length arts), NewsList arts]
      | Some m \<Rightarrow> if m = '''' then [ResultsCount (length arts), NewsList arts]
                  else [ErrorMessage m])"
  by (simp add: render_def split: option.splits)

text \<open>
  C6 (amended). There is no request token and no cancellation: every response is applied
  to the request state when it arrives, whichever trigger sent its request, by running
  the rest of that \<open>fetchNews\<close> call on the current state. A success with articles
  replaces the stored articles by its own and leaves the error message as it is, so its
  articles are displayed unless an error message is set, one left by an earlier arrival
  included, and then the error banner is displayed. A success without articles stores the
  empty list and sets the no-articles message. An error body sets its own error message,
  or \<open>Failed to fetch news\<close> when it has none, and a failed call sets the connection
  message; both leave the stored articles and display the error banner. Every arrival
  clears \<open>loading\<close>.
\<close>

theorem last_arrival_wins:
  assumes "k < length (pending (run respond a events))"
  shows "state (run respond a (events @ [Arrival k])) =
           fetchNews_response (respond (pending (run respond a events) ! k))
             (state (run respond a events)) \<and>
         (\<forall>arts e. respond (pending (run respond a events) ! k) = Json ''success'' arts e \<and>
                   arts \<noteq> [] \<longrightarrow>
            state (run respond a (events @ [Arrival k])) =
              (state (run respond a events))\<lparr>articles := arts, loading := False\<rparr> \<and>
            render q (state (run respond a (events @ [Arrival k]))) =
              (case error (state (run respond a events)) of
                 None \<Rightarrow> [ResultsCount (length arts), NewsList arts]
               | Some m \<Rightarrow> if m = '''' then [ResultsCount (length arts), NewsList arts]
                           else [ErrorMessage m])) \<and>
         (\<forall>e. respond (pending (run respond a events) ! k) = Json ''success'' [] e \<longrightarrow>
            state (run respond a (events @ [Arrival k])) =
              \<lparr>articles = [], loading = False, error = Some noArticlesMessage\<rparr> \<and>
            render q (state (run respond a (events @ [Arrival k]))) =
              [ErrorMessage noArticlesMessage]) \<and>
         (\<forall>st arts m. respond (pending (run respond a events) ! k) = Json st arts (Some m) \<and>
                      st \<noteq> ''success'' \<and> m \<noteq> '''' \<longrightarrow>
            state (run respond a (events @ [Arrival k])) =
              (state (run respond a events))\<lparr>error := Some m, loading := False\<rparr> \<and>
            render q (state (run respond a (events @ [Arrival k]))) = [ErrorMessage m]) \<and>
         (\<forall>st arts e. respond (pending (run respond a events) ! k) = Json st arts e \<and>
                      st \<noteq> ''success'' \<and> (e = None \<or> e = Some '''') \<longrightarrow>
            state (run respond a (events @ [Arrival k])) =
              (state (run respond a events))
                \<lparr>error := Some ''Failed to fetch news'', loading := False\<rparr> \<and>
            render q (state (run respond a (events @ [Arrival k]))) =
              [ErrorMessage ''Failed to fetch news'']) \<and>
         (respond (pending (run respond a events) ! k) = Failed \<longrightarrow>
            state (run respond a (events @ [Arrival k])) =
              (state (run respond a events))\<lparr>error := Some connectMessage, loading := False\<rparr> \<and>
            render q (state (run respond a (events @ [Arrival k]))) =
              [ErrorMessage connectMessage])"
proof -
  let ?before = "state (run respond a events)"
  let ?r = "respond (pending (run respond a events) ! k)"
  have after: "state (run respond a (events @ [Arrival k])) = fetchNews_response ?r ?before"
    using assms by (simp add: run_snoc)
  have noArticles: "noArticlesMessage \<noteq> ''''" and connect: "connectMessage \<noteq> ''''"
    by (simp_all add: noArticlesMessage_def connectMessage_def)
  have empty: "render q \<lparr>articles = [], loading = False, error = Some noArticlesMessage\<rparr> =
                 [ErrorMessage noArticlesMessage]"
    using noArticles by (simp add: render_def)
  show ?thesis
    unfolding after
  proof (intro conjI allI impI)
    show "fetchNews_response ?r ?before = fetchNews_response ?r ?before" ..
  qed (simp_all add: fetchNews_response_cases render_error render_articles empty connect)
qed

text \<open>
  C6 as stated fails. Two triggers, \<open>first\<close> then \<open>second\<close>, whose responses arrive in the
  opposite order: the articles displayed at the end are those of \<open>first\<close>, the stale
  request, while the latest trigger's own result is the article \<open>second\<close>. And when the
  call for \<open>first\<close> fails and the responses arrive in the order of the triggers, the error
  banner of \<open>first\<close> is displayed at the end, not the result of \<open>second\<close>.
\<close>

theorem stale_response_counterexample:
  "state (run echo initialApp
     [Trigger 1767225600000 ''first'' initialFilters,
      Trigger 1767225600000 ''second'' initialFilters,
      Arrival 1, Arrival 0]) =
     \<lparr>articles = [''first''], loading = False, error = None\<rparr> \<and>
   render ''second'' \<lparr>articles = [''first''], loading = False, error = None\<rparr> =
     [ResultsCount 1, NewsList [''first'']] \<and>
   state (run echo initialApp
     [Trigger 1767225600000 ''second'' initialFilters, Arrival 0]) =
     \<lparr>articles = [''second''], loading = False, error = None\<rparr> \<and>
   state (run (echoBut ''first'') initialApp
     [Trigger 1767225600000 ''first'' initialFilters,
      Trigger 1767225600000 ''second'' initialFilters,
      Arrival 0, Arrival 0]) =
     \<lparr>articles = [''second''], loading = False, error = Some connectMessage\<rparr> \<and>
   render ''second'' \<lparr>articles = [''second''], loading = False, error = Some connectMessage\<rparr> =
     [ErrorMessage connectMessage]"
  by (simp add: run_def initialApp_def echo_def echoBut_def fetchEffect_def
        fetchNews_request_def fetchNews_response_def searchParams_def getDateFrom_examples
        initialState_def initialFilters_def trim_def isWhiteSpace_def render_def
        connectMessage_def)

lemma two_triggers:
  "run (echoBut ''first'') initialApp
     [Trigger 1767225600000 ''first'' initialFilters,
      Trigger 1767225600000 ''second'' initialFilters, Arrival 0] =
   \<lparr>state = \<lparr>articles = [], loading = False, error = Some connectMessage\<rparr>,
    pending = [[(''q'', ''second''), (''language'', ''en''), (''from'', ''2025-12-25''),
                (''sortBy'', ''publishedAt'')]]\<rparr>"
  by (simp add: run_def initialApp_def echoBut_def fetchEffect_def fetchNews_request_def
        fetchNews_response_def searchParams_def getDateFrom_examples initialState_def
        initialFilters_def trim_def isWhiteSpace_def)

theorem last_arrival_wins_witness:
  "0 < length (pending (run (echoBut ''first'') initialApp
       [Trigger 1767225600000 ''first'' initialFilters,
        Trigger 1767225600000 ''second'' initialFilters, Arrival 0])) \<and>
   echoBut ''first''
     (pending (run (echoBut ''first'') initialApp
        [Trigger 1767225600000 ''first'' initialFilters,
         Trigger 1767225600000 ''second'' initialFilters, Arrival 0]) ! 0) =
     Json ''success'' [''second''] None \<and>
   state (run (echoBut ''first'') initialApp
     ([Trigger 1767225600000 ''first'' initialFilters,
       Trigger 1767225600000 ''second'' initialFilters, Arrival 0] @ [Arrival 0])) =
     \<lparr>articles = [''second''], loading = False, error = Some connectMessage\<rparr> \<and>
   render ''second''
     (state (run (echoBut ''first'') initialApp
        ([Trigger 1767225600000 ''first'' initialFilters,
          Trigger 1767225600000 ''second'' initialFilters, Arrival 0] @ [Arrival 0]))) =
     [ErrorMessage connectMessage]"
proof -
  let ?events = "[Trigger 1767225600000 ''first'' initialFilters,
                  Trigger 1767225600000 ''second'' initialFilters, Arrival 0]"
  have h: "0 < length (pending (run (echoBut ''first'') initialApp ?events))"
    by (simp add: two_triggers)
  have r: "echoBut ''first'' (pending (run (echoBut ''first'') initialApp ?events) ! 0) =
             Json ''success'' [''second''] None"
    by (simp add: two_triggers echoBut_def)
  have c: "connectMessage \<noteq> ''''"
    by (simp add: connectMessage_def)
  note inst = last_arrival_wins [OF h, of "''second''"]
  from inst r
  have "state (run (echoBut ''first'') initialApp (?events @ [Arrival 0])) =
          (state (run (echoBut ''first'') initialApp ?events))
            \<lparr>articles := [''second''], loading := False\<rparr>"
    by blast
  then have s: "state (run (echoBut ''first'') initialApp (?events @ [Arrival 0])) =
                  \<lparr>articles = [''second''], loading = False, error = Some connectMessage\<rparr>"
    by (simp add: two_triggers)
  from inst r
  have "render ''second'' (state (run (echoBut ''first'') initialApp (?events @ [Arrival 0]))) =
          (case error (state (run (echoBut ''first'') initialApp ?events)) of
             None \<Rightarrow> [ResultsCount (length [''second'']), NewsList [''second'']]
           | Some m \<Rightarrow> if m = '''' then [ResultsCount (length [''second'']), NewsList [''second'']]
                       else [ErrorMessage m])"
    by blast
  also have "\<dots> = [ErrorMessage connectMessage]"
    using c by (simp add: two_triggers)
  finally have d: "render ''second''
              (state (run (echoBut ''first'') initialApp (?events @ [Arrival 0]))) =
              [ErrorMessage connectMessage]" .
  show ?thesis
    by (intro conjI) (rule h r s d)+
qed

section \<open>Truncation and filter changes\<close>

text \<open>
  C9. \<open>truncateText\<close> is total and bounded: a null, undefined or empty text gives the
  empty string; a text of at most \<open>maxLength\<close> characters is returned unchanged; any longer
  text gives exactly its first \<open>maxLength\<close> characters followed by three dots; in every
  case the result has at most \<open>maxLength + 3\<close> characters.
\<close>

theorem truncateText_bounded:
  "truncateText None n = '''' \<and>
   truncateText (Some '''') n = '''' \<and>
   (length t \<le> n \<longrightarrow> truncateText (Some t) n = t) \<and>
   (n < length t \<longrightarrow> truncateText (Some t) n = take n t @ ''...'') \<and>
   length (truncateText text n) \<le> n + 3"
  by (auto simp: truncateText_def split: option.splits)

theorem truncateText_bounded_witness:
  "length ''news'' \<le> 5 \<and> 5 < length ''headline'' \<and>
   truncateText None 5 = '''' \<and>
   truncateText (Some '''') 5 = '''' \<and>
   truncateText (Some ''news'') 5 = ''news'' \<and>
   truncateText (Some ''headline'') 5 = ''headl...'' \<and>
   length (truncateText (Some ''headline'') 5) \<le> 5 + 3"
  using truncateText_bounded [of 5 "''news''" "Some ''headline''"]
        truncateText_bounded [of 5 "''headline''" "Some ''headline''"]
  by simp

text \<open>
  C10. \<open>handleFilterChange\<close> preserves the frame: for every prior filter state, filter
  type and value, the new state has the named property set to the value and every other
  property as it was.
\<close>

theorem handleFilterChange_frame:
  "field (handleFilterChange filterType value prevFilters) filterType = Some value \<and>
   (\<forall>name. name \<noteq> filterType \<longrightarrow>
      field (handleFilterChange filterType value prevFilters) name = field prevFilters name)"
  by (simp add: handleFilterChange_def field_def)

theorem handleFilterChange_frame_witness:
  "field (handleFilterChange ''language'' ''fr'' initialFilters) ''language'' = Some ''fr'' \<and>
   field (handleFilterChange ''language'' ''fr'' initialFilters) ''dateRange'' = Some ''week'' \<and>
   field (handleFilterChange ''language'' ''fr'' initialFilters) ''source'' = Some ''all'' \<and>
   field (handleFilterChange ''language'' ''fr'' initialFilters) ''page'' = None"
proof -
  note inst = handleFilterChange_frame [of "''language''" "''fr''" initialFilters]
  have frame: "field (handleFilterChange ''language'' ''fr'' initialFilters) name =
               field initialFilters name" if "name \<noteq> ''language''" for name
    using inst that by blast
  have "field (handleFilterChange ''language'' ''fr'' initialFilters) ''language'' = Some ''fr''"
    using inst by blast
  moreover have
    "field (handleFilterChange ''language'' ''fr'' initialFilters) ''dateRange'' = Some ''week''"
    using frame [of "''dateRange''"] by (simp add: field_def initialFilters_def)
  moreover have
    "field (handleFilterChange ''language'' ''fr'' initialFilters) ''source'' = Some ''all''"
    using frame [of "''source''"] by (simp add: field_def initialFilters_def)
  moreover have
    "field (handleFilterChange ''language'' ''fr'' initialFilters) ''page'' = None"
    using frame [of "''page''"] by (simp add: field_def initialFilters_def)
  ultimately show ?thesis by simp
qed

end
